theory Spec2Isabelle
  imports Main "HOL-Library.Word" "HOL-Library.Multiset"
begin

unbundle bit_operations_syntax

section \<open>Go values\<close>

text \<open>
  Byte slices are lists of 8-bit words; a Go string converted from a byte slice holds the
  same bytes. Go's \<^verbatim>\<open>int\<close> is taken at its width on the 64-bit platforms
  (amd64, arm64): a 64-bit two's complement word whose arithmetic wraps around.
  A \<^verbatim>\<open>rune\<close> is an \<^verbatim>\<open>int32\<close>.
\<close>

type_synonym byte = "8 word"
type_synonym bytes = "byte list"
type_synonym go_int = "64 word"
type_synonym rune = "32 word"

text \<open>An \<^verbatim>\<open>error\<close> value of a library call is kept as its message.\<close>

type_synonym go_error = string

text \<open>
  A Go function of this repository either returns or panics. A panic is the left summand:
  \<^verbatim>\<open>log.Panic(err)\<close> and \<^verbatim>\<open>panic(err)\<close> carry the error,
  \<^verbatim>\<open>log.Panic("...")\<close> a message; the runtime panics on an index out of
  range, and \<^verbatim>\<open>rand.Int\<close> panics when its bound is not positive.
\<close>

datatype panic =
    PanicErr go_error
  | PanicMsg string
  | IndexOutOfRange
  | RandIntBoundNotPositive

section \<open>consensus.go: stake-weighted selection\<close>

record POSValidator =
  PublicKey_v :: bytes
  Stake :: go_int

text \<open>
  The map \<^verbatim>\<open>validators\<close> is given as the list of its values in the order in
  which \<^verbatim>\<open>range\<close> visits them. The first loop adds the stakes up.
\<close>

fun totalStake_loop :: "go_int \<Rightarrow> POSValidator list \<Rightarrow> go_int" where
  "totalStake_loop totalStake [] = totalStake"
| "totalStake_loop totalStake (validator # rest) =
     totalStake_loop (totalStake + Stake validator) rest"

text \<open>
  The second loop subtracts each stake from \<^verbatim>\<open>random\<close> and returns at the
  first validator where the remainder is zero or negative (a signed comparison).
  \<open>None\<close>: the loop ended without returning.
\<close>

fun select_loop :: "go_int \<Rightarrow> POSValidator list \<Rightarrow> bytes option" where
  "select_loop random [] = None"
| "select_loop random (validator # rest) =
     (let random' = random - Stake validator
      in if random' \<le>s 0 then Some (PublicKey_v validator) else select_loop random' rest)"

text \<open>
  \<^verbatim>\<open>rand.Int(rand.Reader, max)\<close> panics when \<open>max \<le> 0\<close>; otherwise it
  returns an error or a number, which is the argument \<open>draw\<close> here
  (\<open>Inl\<close> the error). \<^verbatim>\<open>Int64()\<close> reads the low 64 bits of the number.
\<close>

definition ProofOfStake :: "POSValidator list \<Rightarrow> go_error + int \<Rightarrow> panic + bytes" where
  "ProofOfStake validators draw =
     (let totalStake = totalStake_loop 0 validators
      in if totalStake \<le>s 0 then Inl RandIntBoundNotPositive
         else (case draw of
                 Inl err \<Rightarrow> Inl (PanicErr err)
               | Inr randomBig \<Rightarrow>
                   (case select_loop (word_of_int randomBig) validators of
                      Some publicKey \<Rightarrow> Inr publicKey
                    | None \<Rightarrow> Inl (PanicMsg ''Unable to find a validator''))))"

section \<open>transaction.go\<close>

record TxInput =
  Signature :: bytes
  PublicKey_in :: bytes

record TxOutput =
  Value :: go_int
  PublicKey_out :: bytes

record Transaction =
  ID :: bytes
  Input :: "TxInput list"
  Output :: "TxOutput list"

subsection \<open>Library functions the file calls\<close>

text \<open>
  \<^verbatim>\<open>bytes.Join(s, sep)\<close> concatenates the elements of \<open>s\<close> with \<open>sep\<close>
  between them.
\<close>

fun bytes_Join :: "bytes list \<Rightarrow> bytes \<Rightarrow> bytes" where
  "bytes_Join [] sep = []"
| "bytes_Join [a] sep = a"
| "bytes_Join (a # b # rest) sep = a @ sep @ bytes_Join (b # rest) sep"

text \<open>
  The conversion \<^verbatim>\<open>string(r)\<close> of a rune is the UTF-8 encoding of the code
  point \<open>r\<close>, as the Go runtime's \<^verbatim>\<open>encoderune\<close> computes it: one to four
  bytes, and the three bytes of U+FFFD for a surrogate half and for every value outside
  the code points (the negative ones too, which are large as \<^verbatim>\<open>uint32\<close>).
\<close>

definition runeError :: rune where
  "runeError = 0xFFFD"

definition encode3 :: "rune \<Rightarrow> bytes" where
  "encode3 r =
     [0xE0 OR ucast (signed_drop_bit 12 r),
      0x80 OR (ucast (signed_drop_bit 6 r) AND 0x3F),
      0x80 OR (ucast r AND 0x3F)]"

definition encoderune :: "rune \<Rightarrow> bytes" where
  "encoderune r =
     (let i = uint r
      in if i \<le> 0x7F then [ucast r]
         else if i \<le> 0x7FF then
           [0xC0 OR ucast (signed_drop_bit 6 r), 0x80 OR (ucast r AND 0x3F)]
         else if 0x10FFFF < i \<or> (0xD800 \<le> i \<and> i \<le> 0xDFFF) then encode3 runeError
         else if i \<le> 0xFFFF then encode3 r
         else
           [0xF0 OR ucast (signed_drop_bit 18 r),
            0x80 OR (ucast (signed_drop_bit 12 r) AND 0x3F),
            0x80 OR (ucast (signed_drop_bit 6 r) AND 0x3F),
            0x80 OR (ucast r AND 0x3F)])"

text \<open>
  \<^verbatim>\<open>[]byte(string(rune(v)))\<close> for an \<^verbatim>\<open>int\<close> \<open>v\<close>: the conversion to
  \<^verbatim>\<open>rune\<close> keeps the low 32 bits.
\<close>

definition amount_bytes :: "go_int \<Rightarrow> bytes" where
  "amount_bytes v = encoderune (ucast v)"

subsection \<open>hashTransaction\<close>

text \<open>
  \<^verbatim>\<open>sha256.Sum256\<close> is the parameter \<open>sha256sum\<close>. The byte sequence handed to it
  is \<open>hashTransaction_data\<close> (\<^verbatim>\<open>combinedData\<close> in the source);
  \<^verbatim>\<open>tx.Input[0]\<close> and \<^verbatim>\<open>tx.Output[0]\<close> panic on an empty slice.
\<close>

definition hashTransaction_data :: "Transaction \<Rightarrow> panic + bytes" where
  "hashTransaction_data tx =
     (case Input tx of
        [] \<Rightarrow> Inl IndexOutOfRange
      | in0 # _ \<Rightarrow>
          (case Output tx of
             [] \<Rightarrow> Inl IndexOutOfRange
           | out0 # _ \<Rightarrow>
               Inr (bytes_Join
                      [PublicKey_in in0, PublicKey_out out0, amount_bytes (Value out0)] [])))"

definition hashTransaction :: "(bytes \<Rightarrow> bytes) \<Rightarrow> Transaction \<Rightarrow> panic + bytes" where
  "hashTransaction sha256sum tx =
     (case hashTransaction_data tx of
        Inl p \<Rightarrow> Inl p
      | Inr combinedData \<Rightarrow> Inr (sha256sum combinedData))"

subsection \<open>NewTransaction\<close>

text \<open>
  The private key is of an arbitrary type \<open>'k\<close>; \<open>X_Bytes\<close> stands for
  \<^verbatim>\<open>privateKey.PublicKey.X.Bytes()\<close> and \<open>ecdsa_Sign key digest\<close> for the call
  \<^verbatim>\<open>ecdsa.Sign(rand.Reader, &key, digest)\<close>, which gives an error or the bytes
  of the two numbers \<open>r\<close> and \<open>s\<close>.
\<close>

definition NewTransaction ::
  "(bytes \<Rightarrow> bytes) \<Rightarrow> ('k \<Rightarrow> bytes) \<Rightarrow> ('k \<Rightarrow> bytes \<Rightarrow> go_error + bytes \<times> bytes) \<Rightarrow>
   'k \<Rightarrow> bytes \<Rightarrow> go_int \<Rightarrow> panic + Transaction" where
  "NewTransaction sha256sum X_Bytes ecdsa_Sign privateKey recipient amount =
     (let txIn = \<lparr>Signature = [], PublicKey_in = X_Bytes privateKey\<rparr>;
          txOut = \<lparr>Value = amount, PublicKey_out = recipient\<rparr>;
          tx = \<lparr>ID = [], Input = [txIn], Output = [txOut]\<rparr>
      in case hashTransaction sha256sum tx of
           Inl p \<Rightarrow> Inl p
         | Inr h \<Rightarrow>
             (let tx = tx\<lparr>ID := h\<rparr>
              in case ecdsa_Sign privateKey (ID tx) of
                   Inl err \<Rightarrow> Inl (PanicErr err)
                 | Inr (r, s) \<Rightarrow>
                     (let signature = r @ s
                      in Inr (tx\<lparr>Input := (Input tx)
                                 [0 := (Input tx ! 0)\<lparr>Signature := signature\<rparr>]\<rparr>))))"

subsection \<open>Serialize and DeserializeTransaction\<close>

text \<open>
  The gob encoder and decoder are parameters: \<open>gob_Encode\<close> gives an error or the
  bytes written to the buffer, \<open>gob_Decode\<close> an error or the decoded value.
\<close>

definition Transaction_Serialize ::
  "(Transaction \<Rightarrow> go_error + bytes) \<Rightarrow> Transaction \<Rightarrow> panic + bytes" where
  "Transaction_Serialize gob_Encode tx =
     (case gob_Encode tx of
        Inl err \<Rightarrow> Inl (PanicErr err)
      | Inr encoded \<Rightarrow> Inr encoded)"

definition DeserializeTransaction ::
  "(bytes \<Rightarrow> go_error + Transaction) \<Rightarrow> bytes \<Rightarrow> panic + Transaction" where
  "DeserializeTransaction gob_Decode data =
     (case gob_Decode data of
        Inl err \<Rightarrow> Inl (PanicErr err)
      | Inr transaction \<Rightarrow> Inr transaction)"

section \<open>block.go\<close>

text \<open>
  The type of \<^verbatim>\<open>time.Time\<close> is the parameter \<open>'t\<close>, and \<open>time_String\<close>
  below the bytes of \<^verbatim>\<open>Timestamp.String()\<close>.
\<close>

record 't Block =
  Timestamp :: 't
  Transactions :: "Transaction list"
  PrevBlockHash :: bytes
  Hash :: bytes
  Validator :: bytes
  Nonce :: go_int

text \<open>
  Modelled from the spec: the method \<^verbatim>\<open>Hash\<close> of a transaction, which
  \<^verbatim>\<open>calculateHash\<close> calls, is defined in no source file. The spec has the block's
  hash cover "each transaction's id in order", so the method gives the stored id.
\<close>

definition Transaction_Hash :: "Transaction \<Rightarrow> bytes" where
  "Transaction_Hash tx = ID tx"

fun txHashes_loop :: "bytes \<Rightarrow> Transaction list \<Rightarrow> bytes" where
  "txHashes_loop txHashes [] = txHashes"
| "txHashes_loop txHashes (tx # rest) = txHashes_loop (txHashes @ Transaction_Hash tx) rest"

definition calculateHash_data :: "('t \<Rightarrow> bytes) \<Rightarrow> 't Block \<Rightarrow> bytes" where
  "calculateHash_data time_String b =
     bytes_Join
       [PrevBlockHash b, txHashes_loop [] (Transactions b), time_String (Timestamp b)] []"

definition calculateHash :: "(bytes \<Rightarrow> bytes) \<Rightarrow> ('t \<Rightarrow> bytes) \<Rightarrow> 't Block \<Rightarrow> bytes" where
  "calculateHash sha256sum time_String b = sha256sum (calculateHash_data time_String b)"


definition Block_Serialize :: "('t Block \<Rightarrow> go_error + bytes) \<Rightarrow> 't Block \<Rightarrow> panic + bytes" where
  "Block_Serialize gob_Encode b =
     (case gob_Encode b of
        Inl err \<Rightarrow> Inl (PanicErr err)
      | Inr result \<Rightarrow> Inr result)"

definition DeserializeBlock :: "(bytes \<Rightarrow> go_error + 't Block) \<Rightarrow> bytes \<Rightarrow> panic + 't Block" where
  "DeserializeBlock gob_Decode data =
     (case gob_Decode data of
        Inl err \<Rightarrow> Inl (PanicErr err)
      | Inr block \<Rightarrow> Inr block)"

section \<open>Sample values\<close>

text \<open>
  The validators of the example in the comment of \<^verbatim>\<open>ProofOfStake\<close>: A with 70
  tokens and B with 30; and a validator with no stake.
\<close>

definition validatorA :: POSValidator where
  "validatorA = \<lparr>PublicKey_v = [0x41], Stake = 70\<rparr>"

definition validatorB :: POSValidator where
  "validatorB = \<lparr>PublicKey_v = [0x42], Stake = 30\<rparr>"

definition validatorZ :: POSValidator where
  "validatorZ = \<lparr>PublicKey_v = [0x5A], Stake = 0\<rparr>"

text \<open>
  Two validators with a stake of 5000000000000000000 each, whose sum is beyond the largest
  64-bit \<^verbatim>\<open>int\<close>; and a validator whose public key is the empty byte slice.
\<close>

definition validatorBigA :: POSValidator where
  "validatorBigA = \<lparr>PublicKey_v = [0x43], Stake = 5000000000000000000\<rparr>"

definition validatorBigB :: POSValidator where
  "validatorBigB = \<lparr>PublicKey_v = [0x44], Stake = 5000000000000000000\<rparr>"

definition validatorNoKey :: POSValidator where
  "validatorNoKey = \<lparr>PublicKey_v = [], Stake = 5\<rparr>"

text \<open>
  The transaction that \<open>NewTransaction\<close> builds before it signs, for a sender whose key
  bytes are \<open>S\<close>, the recipient \<open>R\<close> and an amount.
\<close>

definition unsignedTransfer :: "go_int \<Rightarrow> Transaction" where
  "unsignedTransfer amount =
     \<lparr>ID = [],
      Input = [\<lparr>Signature = [], PublicKey_in = [0x53]\<rparr>],
      Output = [\<lparr>Value = amount, PublicKey_out = [0x52]\<rparr>]\<rparr>"

text \<open>A transaction with a second output, of a given value.\<close>

definition twoOutputs :: "go_int \<Rightarrow> Transaction" where
  "twoOutputs second =
     \<lparr>ID = [],
      Input = [\<lparr>Signature = [], PublicKey_in = [0x53]\<rparr>],
      Output = [\<lparr>Value = 10, PublicKey_out = [0x52]\<rparr>,
                \<lparr>Value = second, PublicKey_out = [0x51]\<rparr>]\<rparr>"

text \<open>A signer that rejects every key, and one that always gives the same two numbers.\<close>

definition failingSign :: "bytes \<Rightarrow> bytes \<Rightarrow> go_error + bytes \<times> bytes" where
  "failingSign key digest = Inl ''invalid key''"

definition fixedSign :: "bytes \<Rightarrow> bytes \<Rightarrow> go_error + bytes \<times> bytes" where
  "fixedSign key digest = Inr ([0x01], [0x02])"

text \<open>A decoder for which the input is malformed: it stops with \<^verbatim>\<open>io.EOF\<close>.\<close>

definition failingDecode :: "bytes \<Rightarrow> go_error + 'a" where
  "failingDecode data = Inl ''EOF''"

text \<open>
  Blocks whose time is given by the bytes of its rendering: one without transactions,
  for a validator and a nonce, and one for a list of transactions. The transactions
  carry their ids only.
\<close>

definition blockOf :: "bytes \<Rightarrow> go_int \<Rightarrow> bytes Block" where
  "blockOf validator nonce =
     \<lparr>Timestamp = [0x54], Transactions = [], PrevBlockHash = [0x01], Hash = [],
      Validator = validator, Nonce = nonce\<rparr>"

definition blockWith :: "Transaction list \<Rightarrow> bytes Block" where
  "blockWith transactions =
     \<lparr>Timestamp = [0x54], Transactions = transactions, PrevBlockHash = [], Hash = [],
      Validator = [], Nonce = 0\<rparr>"

definition txShort :: Transaction where
  "txShort = \<lparr>ID = [0x01], Input = [], Output = []\<rparr>"

definition txOther :: Transaction where
  "txOther = \<lparr>ID = [0x02], Input = [], Output = []\<rparr>"

section \<open>Properties of the selection\<close>

lemma totalStake_loop_acc: "totalStake_loop acc vs = acc + totalStake_loop 0 vs"
proof (induction vs arbitrary: acc)
  case Nil
  show ?case by simp
next
  case (Cons v vs)
  have "totalStake_loop acc (v # vs) = (acc + Stake v) + totalStake_loop 0 vs"
    using Cons.IH [of "acc + Stake v"] by simp
  also have "\<dots> = acc + totalStake_loop 0 (v # vs)"
    using Cons.IH [of "0 + Stake v"] by (simp add: add.assoc)
  finally show ?case .
qed

lemma totalStake_loop_Cons: "totalStake_loop 0 (v # vs) = Stake v + totalStake_loop 0 vs"
  using totalStake_loop_acc [of "0 + Stake v" vs] by simp

lemma totalStake_loop_sum_list: "totalStake_loop 0 vs = sum_list (map Stake vs)"
proof (induction vs)
  case Nil
  show ?case by simp
next
  case (Cons v vs)
  then show ?case by (simp only: totalStake_loop_Cons list.map sum_list.Cons)
qed

text \<open>
  The two loops range over the same map, possibly in different orders; the total does
  not depend on the order.
\<close>

lemma totalStake_loop_order:
  assumes "mset vs = mset ws"
  shows "totalStake_loop 0 vs = totalStake_loop 0 ws"
proof -
  have "sum_mset (mset (map Stake vs)) = sum_mset (mset (map Stake ws))"
    using assms by (metis mset_map)
  then show ?thesis
    by (simp only: totalStake_loop_sum_list sum_mset_sum_list)
qed

lemma select_loop_member:
  "select_loop random vs = Some k \<Longrightarrow> \<exists>v \<in> set vs. k = PublicKey_v v"
  by (induction vs arbitrary: random) (auto simp: Let_def split: if_splits)

text \<open>
  When the loop ends without returning, what is left of \<open>random\<close> after all the
  subtractions is positive.
\<close>

lemma select_loop_None:
  "select_loop random vs = None \<Longrightarrow> vs \<noteq> [] \<Longrightarrow> \<not> random - totalStake_loop 0 vs \<le>s 0"
proof (induction vs arbitrary: random)
  case Nil
  then show ?case by simp
next
  case (Cons v vs)
  from Cons.prems(1) have pos: "\<not> random - Stake v \<le>s 0"
    and rest: "select_loop (random - Stake v) vs = None"
    by (auto simp: Let_def split: if_splits)
  show ?case
  proof (cases vs)
    case Nil
    with pos show ?thesis by simp
  next
    case (Cons w ws)
    then have "vs \<noteq> []" by simp
    from Cons.IH [OF rest this]
    have h: "\<not> random - Stake v - totalStake_loop 0 vs \<le>s 0" .
    have eq: "random - totalStake_loop 0 (v # vs) = random - Stake v - totalStake_loop 0 vs"
      by (simp only: totalStake_loop_Cons diff_diff_eq)
    show ?thesis unfolding eq by (rule h)
  qed
qed

text \<open>A draw below the total leaves a negative remainder, without wrap-around.\<close>

lemma draw_below_total:
  fixes total :: go_int
  assumes "0 \<le> r" and "r < sint total"
  shows "word_of_int r - total \<le>s 0"
proof -
  have up: "sint total < 2 ^ 63" using sint_lt [of total] by simp
  have r: "sint (word_of_int r :: go_int) = r"
    using assms up by (simp add: sint_sbintrunc' signed_take_bit_int_eq_self)
  have "sint (word_of_int r - total) = signed_take_bit 63 (r - sint total)"
    using r by (simp add: sint_word_ariths)
  also have "\<dots> = r - sint total"
    using assms up by (intro signed_take_bit_int_eq_self) auto
  finally show ?thesis using assms by (simp add: word_sle_eq)
qed

text \<open>
  The 64-bit sum is the sum of the stakes as numbers when no stake is negative and that
  sum is below \<open>2 ^ 63\<close>.
\<close>

lemma totalStake_loop_exact:
  assumes "\<forall>v \<in> set vs. 0 \<le>s Stake v"
    and "(\<Sum>v\<leftarrow>vs. sint (Stake v)) < 2 ^ 63"
  shows "sint (totalStake_loop 0 vs) = (\<Sum>v\<leftarrow>vs. sint (Stake v))"
  using assms
proof (induction vs)
  case Nil
  show ?case by simp
next
  case (Cons v vs)
  have v0: "0 \<le> sint (Stake v)"
    using Cons.prems(1) by (simp add: word_sle_eq)
  have rest0: "0 \<le> (\<Sum>v\<leftarrow>vs. sint (Stake v))"
    using Cons.prems(1) by (intro sum_list_nonneg) (auto simp: word_sle_eq)
  have rest_lt: "(\<Sum>v\<leftarrow>vs. sint (Stake v)) < 2 ^ 63"
    using Cons.prems(2) v0 by simp
  have ih: "sint (totalStake_loop 0 vs) = (\<Sum>v\<leftarrow>vs. sint (Stake v))"
    using Cons.IH Cons.prems(1) rest_lt by simp
  have "sint (Stake v + totalStake_loop 0 vs)
          = signed_take_bit 63 (sint (Stake v) + sint (totalStake_loop 0 vs))"
    by (simp add: sint_word_ariths)
  also have "\<dots> = sint (Stake v) + sint (totalStake_loop 0 vs)"
    using v0 rest0 Cons.prems(2) ih by (intro signed_take_bit_int_eq_self) auto
  finally show ?case
    using ih by (simp only: totalStake_loop_Cons list.map sum_list.Cons)
qed

lemma ProofOfStake_returns_member:
  assumes "validators \<noteq> []"
    and "0 <s totalStake_loop 0 validators"
    and "0 \<le> r" and "r < sint (totalStake_loop 0 validators)"
  shows "\<exists>v \<in> set validators. ProofOfStake validators (Inr r) = Inr (PublicKey_v v)"
proof -
  have notle: "\<not> totalStake_loop 0 validators \<le>s 0"
    using assms(2) by (simp add: word_sle_eq word_sless_alt)
  have "select_loop (word_of_int r) validators \<noteq> None"
    using select_loop_None [of "word_of_int r" validators]
      draw_below_total [OF assms(3,4)] assms(1)
    by blast
  then obtain k where k: "select_loop (word_of_int r) validators = Some k" by auto
  from select_loop_member [OF k]
  obtain v where "v \<in> set validators" "k = PublicKey_v v" by auto
  with k notle show ?thesis by (auto simp: ProofOfStake_def)
qed

text \<open>
  Claim C3 says that for every snapshot whose total stake is positive, and every draw
  below the total, \<open>ProofOfStake\<close> returns the key of a validator of the snapshot and
  never the empty string. It fails in two places. With two stakes of 5000000000000000000 the
  total stake is positive, but the sum the code computes in an \<^verbatim>\<open>int\<close> wraps
  around to a negative number, and \<^verbatim>\<open>rand.Int\<close> panics on it: no key is returned.
  And for a snapshot of one validator with stake 5 and an empty public key, what the
  loop returns is that key, the empty string.
\<close>

theorem ProofOfStake_overflow_and_empty_key:
  "sint (Stake validatorBigA) = 5000000000000000000
   \<and> sint (Stake validatorBigB) = 5000000000000000000
   \<and> (0::int) < 5000000000000000000 + 5000000000000000000
   \<and> ProofOfStake [validatorBigA, validatorBigB] (Inr 0) = Inl RandIntBoundNotPositive
   \<and> 0 <s totalStake_loop 0 [validatorNoKey]
   \<and> (0::int) < sint (totalStake_loop 0 [validatorNoKey])
   \<and> ProofOfStake [validatorNoKey] (Inr 0) = Inr []"
  by (simp add: validatorBigA_def validatorBigB_def validatorNoKey_def ProofOfStake_def
      word_sle_eq word_sless_alt)

text \<open>
  Claim C3, amended. For a snapshot that is not empty and whose total stake, as the code
  adds it up in a 64-bit \<^verbatim>\<open>int\<close>, is positive, and a draw \<open>r\<close> with
  \<open>0 \<le> r < total\<close>, \<open>ProofOfStake\<close> returns from inside the loop, and what it
  returns is the public key of a validator of the snapshot: the panic after the loop and
  its \<^verbatim>\<open>return ""\<close> are not reached. The string returned is not empty when no
  validator of the snapshot has an empty public key. The total the code adds up is the
  total stake when no stake is negative and the total stake is below \<open>2 ^ 63\<close>.
\<close>

theorem ProofOfStake_selects_member:
  assumes "validators \<noteq> []"
    and "0 <s totalStake_loop 0 validators"
    and "0 \<le> r" and "r < sint (totalStake_loop 0 validators)"
  shows "(\<exists>v \<in> set validators. ProofOfStake validators (Inr r) = Inr (PublicKey_v v))
     \<and> ((\<forall>v \<in> set validators. PublicKey_v v \<noteq> []) \<longrightarrow>
           ProofOfStake validators (Inr r) \<noteq> Inr [])
     \<and> ((\<forall>v \<in> set validators. 0 \<le>s Stake v)
           \<and> (\<Sum>v\<leftarrow>validators. sint (Stake v)) < 2 ^ 63
          \<longrightarrow> sint (totalStake_loop 0 validators) = (\<Sum>v\<leftarrow>validators. sint (Stake v)))"
proof -
  from ProofOfStake_returns_member [OF assms]
  obtain v where v: "v \<in> set validators"
    "ProofOfStake validators (Inr r) = Inr (PublicKey_v v)" by blast
  then have one: "\<exists>v \<in> set validators. ProofOfStake validators (Inr r) = Inr (PublicKey_v v)"
    by blast
  have two: "(\<forall>v \<in> set validators. PublicKey_v v \<noteq> []) \<longrightarrow>
           ProofOfStake validators (Inr r) \<noteq> Inr []"
    using v by auto
  have three: "(\<forall>v \<in> set validators. 0 \<le>s Stake v)
           \<and> (\<Sum>v\<leftarrow>validators. sint (Stake v)) < 2 ^ 63
          \<longrightarrow> sint (totalStake_loop 0 validators) = (\<Sum>v\<leftarrow>validators. sint (Stake v))"
    using totalStake_loop_exact [of validators] by blast
  from one two three show ?thesis by blast
qed

theorem ProofOfStake_selects_member_witness:
  "[validatorA, validatorB] \<noteq> []
   \<and> 0 <s totalStake_loop 0 [validatorA, validatorB]
   \<and> (0::int) \<le> 85 \<and> 85 < sint (totalStake_loop 0 [validatorA, validatorB])
   \<and> PublicKey_v validatorA \<noteq> [] \<and> PublicKey_v validatorB \<noteq> []
   \<and> 0 \<le>s Stake validatorA \<and> 0 \<le>s Stake validatorB
   \<and> (\<Sum>v\<leftarrow>[validatorA, validatorB]. sint (Stake v)) = 100
   \<and> (\<exists>v \<in> set [validatorA, validatorB].
         ProofOfStake [validatorA, validatorB] (Inr 85) = Inr (PublicKey_v v))
   \<and> ProofOfStake [validatorA, validatorB] (Inr 85) \<noteq> Inr []
   \<and> sint (totalStake_loop 0 [validatorA, validatorB]) = 100"
proof -
  have a: "[validatorA, validatorB] \<noteq> []" by simp
  have b: "0 <s totalStake_loop 0 [validatorA, validatorB]"
    by (simp add: validatorA_def validatorB_def word_sless_alt)
  have c: "(0::int) \<le> 85" by simp
  have d: "85 < sint (totalStake_loop 0 [validatorA, validatorB])"
    by (simp add: validatorA_def validatorB_def)
  have e: "PublicKey_v validatorA \<noteq> []" "PublicKey_v validatorB \<noteq> []"
    by (simp_all add: validatorA_def validatorB_def)
  have f: "0 \<le>s Stake validatorA" "0 \<le>s Stake validatorB"
    by (simp_all add: validatorA_def validatorB_def word_sle_eq)
  have g: "(\<Sum>v\<leftarrow>[validatorA, validatorB]. sint (Stake v)) = 100"
    by (simp add: validatorA_def validatorB_def)
  have e': "\<forall>v \<in> set [validatorA, validatorB]. PublicKey_v v \<noteq> []" using e by simp
  have f': "\<forall>v \<in> set [validatorA, validatorB]. 0 \<le>s Stake v" using f by simp
  have g': "(\<Sum>v\<leftarrow>[validatorA, validatorB]. sint (Stake v)) < 2 ^ 63"
    unfolding g by simp
  note inst = ProofOfStake_selects_member [OF a b c d]
  from inst have one: "\<exists>v \<in> set [validatorA, validatorB].
         ProofOfStake [validatorA, validatorB] (Inr 85) = Inr (PublicKey_v v)" by blast
  from inst e' have two: "ProofOfStake [validatorA, validatorB] (Inr 85) \<noteq> Inr []" by blast
  from inst f' g' have "sint (totalStake_loop 0 [validatorA, validatorB])
      = (\<Sum>v\<leftarrow>[validatorA, validatorB]. sint (Stake v))" by blast
  then have three: "sint (totalStake_loop 0 [validatorA, validatorB]) = 100"
    unfolding g .
  from a b c d e f g one two three show ?thesis by blast
qed

text \<open>
  Claim C10. A validator with stake 0 can be selected: when the loop visits it first and
  the draw is 0, the remainder after subtracting its stake is 0, which passes the test
  \<^verbatim>\<open>random <= 0\<close>, and \<open>ProofOfStake\<close> returns its public key. This holds for
  every snapshot with a positive total that starts with such a validator; the theorem
  after it is the instance with the validators Z (stake 0) and A (stake 70).
\<close>

theorem ProofOfStake_zero_stake_first:
  assumes "Stake z = 0" and "0 <s totalStake_loop 0 (z # rest)"
  shows "ProofOfStake (z # rest) (Inr 0) = Inr (PublicKey_v z)"
proof -
  have "\<not> totalStake_loop 0 (z # rest) \<le>s 0"
    using assms(2) by (simp add: word_sle_eq word_sless_alt)
  then show ?thesis
    using assms(1) by (simp add: ProofOfStake_def)
qed

theorem ProofOfStake_zero_stake_first_witness:
  "Stake validatorZ = 0
   \<and> 0 <s totalStake_loop 0 [validatorZ, validatorA]
   \<and> (0::int) < sint (totalStake_loop 0 [validatorZ, validatorA])
   \<and> ProofOfStake [validatorZ, validatorA] (Inr 0) = Inr (PublicKey_v validatorZ)"
proof -
  have a: "Stake validatorZ = 0" by (simp add: validatorZ_def)
  have b: "0 <s totalStake_loop 0 [validatorZ, validatorA]"
    by (simp add: validatorA_def validatorZ_def word_sless_alt)
  have c: "(0::int) < sint (totalStake_loop 0 [validatorZ, validatorA])"
    by (simp add: validatorA_def validatorZ_def)
  from ProofOfStake_zero_stake_first [OF a b] a b c show ?thesis by blast
qed

text \<open>
  Claim C1 says that, of the draws \<open>0 \<le> r < total\<close>, as many select a validator as its
  stake counts. On the example of the source's comment (A with 70, B with 30, visited
  in this order) the code selects A for 71 of the 100 draws and B for 29: the draw 70
  leaves the remainder 0, which the test \<^verbatim>\<open>random <= 0\<close> gives to A, while the
  comment's own rule (\<open>85 - 70 = 15\<close>, \<open>15 < 30\<close>) gives B the draws from 70 on.
\<close>

theorem ProofOfStake_example_counts:
  "length (filter (\<lambda>r. ProofOfStake [validatorA, validatorB] (Inr (int r))
                         = Inr (PublicKey_v validatorA)) [0..<100]) = 71
   \<and> length (filter (\<lambda>r. ProofOfStake [validatorA, validatorB] (Inr (int r))
                         = Inr (PublicKey_v validatorB)) [0..<100]) = 29
   \<and> sint (Stake validatorA) = 70 \<and> sint (Stake validatorB) = 30
   \<and> sint (totalStake_loop 0 [validatorA, validatorB]) = 100
   \<and> ProofOfStake [validatorA, validatorB] (Inr 70) = Inr (PublicKey_v validatorA)"
  by code_simp

section \<open>Properties of the transaction codec\<close>

lemma hashTransaction_data_Cons:
  "Input tx = in0 # ins \<Longrightarrow> Output tx = out0 # outs \<Longrightarrow>
   hashTransaction_data tx =
     Inr (PublicKey_in in0 @ PublicKey_out out0 @ amount_bytes (Value out0))"
  by (simp add: hashTransaction_data_def)

text \<open>What \<open>NewTransaction\<close> computes, with the steps before the signing carried out.\<close>

lemma NewTransaction_eq:
  "NewTransaction sha256sum X_Bytes ecdsa_Sign privateKey recipient amount =
     (case ecdsa_Sign privateKey
             (sha256sum (X_Bytes privateKey @ recipient @ amount_bytes amount)) of
        Inl err \<Rightarrow> Inl (PanicErr err)
      | Inr (r, s) \<Rightarrow>
          Inr \<lparr>ID = sha256sum (X_Bytes privateKey @ recipient @ amount_bytes amount),
               Input = [\<lparr>Signature = r @ s, PublicKey_in = X_Bytes privateKey\<rparr>],
               Output = [\<lparr>Value = amount, PublicKey_out = recipient\<rparr>]\<rparr>)"
  by (simp add: NewTransaction_def hashTransaction_def hashTransaction_data_def Let_def
      split: sum.splits prod.splits)

text \<open>
  Claim C2 says that the amount enters the hashed bytes in a fixed-width big-endian
  encoding, so that distinct amounts give distinct bytes. The code hashes
  \<^verbatim>\<open>[]byte(string(rune(amount)))\<close>, the UTF-8 encoding of the amount taken as a code
  point: one byte for 65, three for 2000000, and the same three bytes (those of U+FFFD)
  for 2000000 and 3000000, as for every amount above 0x10FFFF. The two transfers from
  the same sender to the same recipient get the same id, whatever the hash function.
\<close>

theorem hashTransaction_amount_collision:
  "amount_bytes 2000000 = [0xEF, 0xBF, 0xBD]
   \<and> amount_bytes 3000000 = [0xEF, 0xBF, 0xBD]
   \<and> hashTransaction sha256sum (unsignedTransfer 2000000)
       = hashTransaction sha256sum (unsignedTransfer 3000000)
   \<and> length (amount_bytes 65) = 1 \<and> length (amount_bytes 2000000) = 3"
  by (simp add: hashTransaction_def hashTransaction_data_def unsignedTransfer_def
      amount_bytes_def encoderune_def encode3_def runeError_def)

text \<open>
  Claim C6 says that the id covers all the inputs' and all the outputs' keys and values.
  It does not: two transactions that differ in the value of their second output have the
  same hashed bytes (the hash function is the identity here, which has no collisions).
\<close>

theorem hashTransaction_ignores_second_output:
  "map Value (Output (twoOutputs 5)) \<noteq> map Value (Output (twoOutputs 6))
   \<and> hashTransaction id (twoOutputs 5) = hashTransaction id (twoOutputs 6)"
  by (simp add: hashTransaction_def hashTransaction_data_def twoOutputs_def)

text \<open>
  Claim C6, amended. For a transaction with at least one input and one output, the id
  that \<open>hashTransaction\<close> computes is the hash of the first input's public key, the
  first output's public key and the bytes the first output's value is converted to;
  no signature, no id and no later input or output is part of the hashed bytes. A
  transaction that \<open>NewTransaction\<close> returns has this id, computed from the sender's
  key, the recipient and the amount before anything is signed.
\<close>

theorem hashTransaction_first_input_output:
  "(Input tx = in0 # ins \<and> Output tx = out0 # outs \<longrightarrow>
      hashTransaction sha256sum tx =
        Inr (sha256sum (PublicKey_in in0 @ PublicKey_out out0 @ amount_bytes (Value out0))))
   \<and> (NewTransaction sha256sum X_Bytes ecdsa_Sign privateKey recipient amount = Inr new \<longrightarrow>
        hashTransaction sha256sum new = Inr (ID new)
        \<and> ID new = sha256sum (X_Bytes privateKey @ recipient @ amount_bytes amount))"
  by (auto simp: NewTransaction_eq hashTransaction_def hashTransaction_data_def
      split: sum.splits prod.splits)

theorem hashTransaction_first_input_output_witness:
  "Input (twoOutputs 5) = \<lparr>Signature = [], PublicKey_in = [0x53]\<rparr> # []
   \<and> Output (twoOutputs 5) =
       \<lparr>Value = 10, PublicKey_out = [0x52]\<rparr> # [\<lparr>Value = 5, PublicKey_out = [0x51]\<rparr>]
   \<and> hashTransaction id (twoOutputs 5) = Inr [0x53, 0x52, 0x0A]
   \<and> NewTransaction id id fixedSign [0x53] [0x52] 10 =
       Inr \<lparr>ID = [0x53, 0x52, 0x0A],
            Input = [\<lparr>Signature = [0x01, 0x02], PublicKey_in = [0x53]\<rparr>],
            Output = [\<lparr>Value = 10, PublicKey_out = [0x52]\<rparr>]\<rparr>
   \<and> hashTransaction id
         \<lparr>ID = [0x53, 0x52, 0x0A],
          Input = [\<lparr>Signature = [0x01, 0x02], PublicKey_in = [0x53]\<rparr>],
          Output = [\<lparr>Value = 10, PublicKey_out = [0x52]\<rparr>]\<rparr> = Inr [0x53, 0x52, 0x0A]"
proof -
  have a: "Input (twoOutputs 5) = \<lparr>Signature = [], PublicKey_in = [0x53]\<rparr> # []"
    by (simp add: twoOutputs_def)
  have b: "Output (twoOutputs 5) =
       \<lparr>Value = 10, PublicKey_out = [0x52]\<rparr> # [\<lparr>Value = 5, PublicKey_out = [0x51]\<rparr>]"
    by (simp add: twoOutputs_def)
  have ten: "amount_bytes 10 = [0x0A]"
    by (simp add: amount_bytes_def encoderune_def)
  have c: "NewTransaction id id fixedSign [0x53] [0x52] 10 =
       Inr \<lparr>ID = [0x53, 0x52, 0x0A],
            Input = [\<lparr>Signature = [0x01, 0x02], PublicKey_in = [0x53]\<rparr>],
            Output = [\<lparr>Value = 10, PublicKey_out = [0x52]\<rparr>]\<rparr>"
    by (simp add: NewTransaction_eq fixedSign_def ten)
  note inst = hashTransaction_first_input_output [where tx = "twoOutputs 5"
      and sha256sum = id
      and ?in0.0 = "\<lparr>Signature = [], PublicKey_in = [0x53]\<rparr>" and ins = "[]"
      and ?out0.0 = "\<lparr>Value = 10, PublicKey_out = [0x52]\<rparr>"
      and outs = "[\<lparr>Value = 5, PublicKey_out = [0x51]\<rparr>]"
      and X_Bytes = id and ecdsa_Sign = fixedSign and privateKey = "[0x53]"
      and recipient = "[0x52]" and amount = 10
      and new = "\<lparr>ID = [0x53, 0x52, 0x0A],
                  Input = [\<lparr>Signature = [0x01, 0x02], PublicKey_in = [0x53]\<rparr>],
                  Output = [\<lparr>Value = 10, PublicKey_out = [0x52]\<rparr>]\<rparr>"]
  from inst a b
  have d: "hashTransaction id (twoOutputs 5) = Inr [0x53, 0x52, 0x0A]"
    by (simp add: ten)
  from inst c
  have "hashTransaction id
         \<lparr>ID = [0x53, 0x52, 0x0A],
          Input = [\<lparr>Signature = [0x01, 0x02], PublicKey_in = [0x53]\<rparr>],
          Output = [\<lparr>Value = 10, PublicKey_out = [0x52]\<rparr>]\<rparr>
        = Inr (ID \<lparr>ID = [0x53, 0x52, 0x0A],
          Input = [\<lparr>Signature = [0x01, 0x02], PublicKey_in = [0x53]\<rparr>],
          Output = [\<lparr>Value = 10, PublicKey_out = [0x52]\<rparr>]\<rparr>)"
    by blast
  then have e: "hashTransaction id
         \<lparr>ID = [0x53, 0x52, 0x0A],
          Input = [\<lparr>Signature = [0x01, 0x02], PublicKey_in = [0x53]\<rparr>],
          Output = [\<lparr>Value = 10, PublicKey_out = [0x52]\<rparr>]\<rparr> = Inr [0x53, 0x52, 0x0A]"
    by simp
  from a b c d e show ?thesis by blast
qed

text \<open>
  Claim C9 says that a failure of the signing comes back to the caller as an error value
  and that the operation never panics. \<open>NewTransaction\<close> has no error result: with a
  signer that fails, it panics with the signer's error.
\<close>

theorem NewTransaction_failing_sign_panics:
  "failingSign [0x53] (id ([0x53] @ [0x52] @ amount_bytes 10)) = Inl ''invalid key''
   \<and> NewTransaction id id failingSign [0x53] [0x52] 10 = Inl (PanicErr ''invalid key'')"
  by (simp add: NewTransaction_eq failingSign_def)

text \<open>
  Claim C9, amended. When the signing of the id fails, \<open>NewTransaction\<close> panics with
  the error of the signer (\<^verbatim>\<open>log.Panic(err)\<close>) and returns no transaction; a
  transaction it does return is signed: its one input carries the sender's key and the
  bytes of \<open>r\<close> followed by those of \<open>s\<close>, a signature of the id.
\<close>

theorem NewTransaction_sign_failure_panics:
  "(ecdsa_Sign privateKey
        (sha256sum (X_Bytes privateKey @ recipient @ amount_bytes amount)) = Inl err
      \<longrightarrow> NewTransaction sha256sum X_Bytes ecdsa_Sign privateKey recipient amount
            = Inl (PanicErr err))
   \<and> (NewTransaction sha256sum X_Bytes ecdsa_Sign privateKey recipient amount = Inr tx
      \<longrightarrow> (\<exists>r s. ecdsa_Sign privateKey (ID tx) = Inr (r, s)
              \<and> Input tx = [\<lparr>Signature = r @ s, PublicKey_in = X_Bytes privateKey\<rparr>]))"
  by (auto simp: NewTransaction_eq split: sum.splits prod.splits)

theorem NewTransaction_sign_failure_panics_witness:
  "failingSign [0x53] (id (id [0x53] @ [0x52] @ amount_bytes 10)) = Inl ''invalid key''
   \<and> NewTransaction id id failingSign [0x53] [0x52] 10 = Inl (PanicErr ''invalid key'')
   \<and> NewTransaction id id fixedSign [0x53] [0x52] 10 =
       Inr \<lparr>ID = [0x53, 0x52, 0x0A],
            Input = [\<lparr>Signature = [0x01, 0x02], PublicKey_in = [0x53]\<rparr>],
            Output = [\<lparr>Value = 10, PublicKey_out = [0x52]\<rparr>]\<rparr>
   \<and> (\<exists>r s. fixedSign [0x53] [0x53, 0x52, 0x0A] = Inr (r, s)
          \<and> [\<lparr>Signature = [0x01, 0x02], PublicKey_in = [0x53]\<rparr>]
              = [\<lparr>Signature = r @ s, PublicKey_in = [0x53]\<rparr>])"
proof -
  have a: "failingSign [0x53] (id (id [0x53] @ [0x52] @ amount_bytes 10)) = Inl ''invalid key''"
    by (simp add: failingSign_def)
  have b: "NewTransaction id id fixedSign [0x53] [0x52] 10 =
       Inr \<lparr>ID = [0x53, 0x52, 0x0A],
            Input = [\<lparr>Signature = [0x01, 0x02], PublicKey_in = [0x53]\<rparr>],
            Output = [\<lparr>Value = 10, PublicKey_out = [0x52]\<rparr>]\<rparr>"
    by (simp add: NewTransaction_eq fixedSign_def amount_bytes_def encoderune_def)
  from NewTransaction_sign_failure_panics [where ecdsa_Sign = failingSign
      and privateKey = "[0x53]" and sha256sum = id and X_Bytes = id and recipient = "[0x52]"
      and amount = 10 and err = "''invalid key''" and tx = "unsignedTransfer 10"] a
  have c: "NewTransaction id id failingSign [0x53] [0x52] 10 = Inl (PanicErr ''invalid key'')"
    by blast
  from NewTransaction_sign_failure_panics [where ecdsa_Sign = fixedSign
      and privateKey = "[0x53]" and sha256sum = id and X_Bytes = id and recipient = "[0x52]"
      and amount = 10
      and tx = "\<lparr>ID = [0x53, 0x52, 0x0A],
                 Input = [\<lparr>Signature = [0x01, 0x02], PublicKey_in = [0x53]\<rparr>],
                 Output = [\<lparr>Value = 10, PublicKey_out = [0x52]\<rparr>]\<rparr>"
      and err = "''invalid key''"] b
  have d: "\<exists>r s. fixedSign [0x53] [0x53, 0x52, 0x0A] = Inr (r, s)
          \<and> [\<lparr>Signature = [0x01, 0x02], PublicKey_in = [0x53]\<rparr>]
              = [\<lparr>Signature = r @ s, PublicKey_in = [0x53]\<rparr>]"
    by simp
  from a b c d show ?thesis by blast
qed

section \<open>Properties of the serialization\<close>

text \<open>
  Serializing and then deserializing a transaction gives what the gob decoder makes of
  the gob encoder's bytes, and panics where either of them gives an error.
\<close>

lemma DeserializeTransaction_Serialize:
  "(case Transaction_Serialize gob_Encode tx of
      Inl p \<Rightarrow> Inl p
    | Inr data \<Rightarrow> DeserializeTransaction gob_Decode data) =
   (case gob_Encode tx of
      Inl err \<Rightarrow> Inl (PanicErr err)
    | Inr data \<Rightarrow> (case gob_Decode data of
                     Inl err \<Rightarrow> Inl (PanicErr err)
                   | Inr transaction \<Rightarrow> Inr transaction))"
  by (simp add: Transaction_Serialize_def DeserializeTransaction_def split: sum.splits)

text \<open>
  Claim C4 says that malformed bytes make the decoding functions return a "corrupt data"
  error to the caller instead of panicking. Neither function has an error result: on the
  empty input, which the decoder rejects, both panic.
\<close>

theorem Deserialize_decode_error_not_returned:
  "(DeserializeBlock failingDecode [] :: panic + unit Block) = Inl (PanicErr ''EOF'')
   \<and> DeserializeTransaction failingDecode [] = Inl (PanicErr ''EOF'')"
  by (simp add: DeserializeBlock_def DeserializeTransaction_def failingDecode_def)

text \<open>
  Claim C4, amended. For every byte sequence that the gob decoder rejects,
  \<open>DeserializeBlock\<close> and \<open>DeserializeTransaction\<close> panic with the decoder's error;
  nothing is returned to the caller.
\<close>

theorem Deserialize_panics_on_decode_error:
  "(decodeBlock data = Inl err \<longrightarrow> DeserializeBlock decodeBlock data = Inl (PanicErr err))
   \<and> (decodeTx data' = Inl err' \<longrightarrow>
        DeserializeTransaction decodeTx data' = Inl (PanicErr err'))"
  by (simp add: DeserializeBlock_def DeserializeTransaction_def)

theorem Deserialize_panics_on_decode_error_witness:
  "(failingDecode [] :: go_error + unit Block) = Inl ''EOF''
   \<and> (failingDecode [] :: go_error + Transaction) = Inl ''EOF''
   \<and> (DeserializeBlock failingDecode [] :: panic + unit Block) = Inl (PanicErr ''EOF'')
   \<and> DeserializeTransaction failingDecode [] = Inl (PanicErr ''EOF'')"
proof -
  have a: "(failingDecode [] :: go_error + unit Block) = Inl ''EOF''"
    by (simp add: failingDecode_def)
  have b: "(failingDecode [] :: go_error + Transaction) = Inl ''EOF''"
    by (simp add: failingDecode_def)
  from Deserialize_panics_on_decode_error
    [where decodeBlock = "failingDecode :: bytes \<Rightarrow> go_error + unit Block"
      and data = "[]" and err = "''EOF''" and decodeTx = failingDecode and data' = "[]"
      and err' = "''EOF''"] a b
  show ?thesis by blast
qed

section \<open>Properties of the block hash\<close>

lemma txHashes_loop_concat: "txHashes_loop acc txs = acc @ concat (map ID txs)"
  by (induction txs arbitrary: acc) (simp_all add: Transaction_Hash_def)

lemma calculateHash_data_eq:
  "calculateHash_data time_String b =
     PrevBlockHash b @ concat (map ID (Transactions b)) @ time_String (Timestamp b)"
  by (simp add: calculateHash_data_def txHashes_loop_concat)

text \<open>
  Claim C5 says that two blocks are equal in every field, \<open>Validator\<close> and \<open>Nonce\<close>
  included, exactly when their computed hashes are equal, given a hash function without
  collisions. Two blocks that differ in validator and nonce only have the same computed
  hash, also under the identity, which has no collisions.
\<close>

theorem calculateHash_ignores_Validator_Nonce:
  "blockOf [0x41] 0 \<noteq> blockOf [0x42] 7
   \<and> inj (id :: bytes \<Rightarrow> bytes)
   \<and> calculateHash id id (blockOf [0x41] 0) = calculateHash id id (blockOf [0x42] 7)"
  by (simp add: blockOf_def calculateHash_def calculateHash_data_def)

text \<open>
  Claim C5, amended. Given a hash function without collisions, two blocks have equal
  computed hashes exactly when the bytes of the previous block's hash, the transactions'
  ids in order and the rendered timestamp, joined, are the same for both; equal blocks
  are a case of it. The fields \<open>Hash\<close>, \<open>Validator\<close> and \<open>Nonce\<close> are not hashed:
  changing them leaves the computed hash as it is.
\<close>

theorem calculateHash_equal_iff_data:
  assumes "inj sha256sum"
  shows "(calculateHash sha256sum time_String b1 = calculateHash sha256sum time_String b2
           \<longleftrightarrow> PrevBlockHash b1 @ concat (map ID (Transactions b1)) @ time_String (Timestamp b1)
               = PrevBlockHash b2 @ concat (map ID (Transactions b2)) @ time_String (Timestamp b2))
         \<and> calculateHash sha256sum time_String (b1\<lparr>Hash := h, Validator := v, Nonce := n\<rparr>)
             = calculateHash sha256sum time_String b1"
  using assms by (simp add: calculateHash_def calculateHash_data_eq inj_eq)

theorem calculateHash_equal_iff_data_witness:
  "inj (id :: bytes \<Rightarrow> bytes)
   \<and> calculateHash id id (blockOf [0x41] 0) = calculateHash id id (blockOf [0x42] 7)
   \<and> calculateHash id id (blockWith [txShort]) \<noteq> calculateHash id id (blockWith [txOther])"
proof -
  have a: "inj (id :: bytes \<Rightarrow> bytes)" by simp
  have b: "blockOf [0x42] 7 = (blockOf [0x41] 0)\<lparr>Hash := [], Validator := [0x42], Nonce := 7\<rparr>"
    by (simp add: blockOf_def)
  have c: "calculateHash id id (blockWith [txShort]) \<noteq> calculateHash id id (blockWith [txOther])"
    using calculateHash_equal_iff_data [OF a, where time_String = id
        and ?b1.0 = "blockWith [txShort]" and ?b2.0 = "blockWith [txOther]"]
    by (simp add: blockWith_def txShort_def txOther_def)
  from calculateHash_equal_iff_data [OF a, where time_String = id
      and ?b1.0 = "blockOf [0x41] 0" and ?b2.0 = "blockOf [0x41] 0" and h = "[]"
      and v = "[0x42]" and n = 7] a b c
  show ?thesis by simp
qed



end
